theory Spec2Isabelle
  imports Main
begin

section \<open>The Keysight B2900 driver: data model\<close>

text \<open>
  The driver (\<^verbatim>\<open>KeysightB2900.py\<close>) has two classes. \<^verbatim>\<open>KeysightB2900\<close> owns a pyvisa
  resource and formats SCPI strings; \<^verbatim>\<open>SMUChannel\<close> holds a channel token, two range
  ceilings and a back-reference to its device.

  Values handed to the level and limit setters are Python ints here (type \<open>int\<close>);
  an f-string field \<^verbatim>\<open>{value}\<close> is then \<^verbatim>\<open>str(value)\<close>: the decimal numeral with a
  leading minus sign for negative numbers, or a \<^verbatim>\<open>ValueError\<close> when the numeral is longer
  than the interpreter converts. Floats are not represented.

  Exceptions are values: every operation returns a pair of its outcome (\<open>Inl\<close> the
  exception raised, \<open>Inr\<close> the value returned) and the state it leaves behind.
\<close>

datatype error =
    ValueError string
  | RuntimeError string
  | AssertionError string
  | AttributeError

text \<open>
  The spec's names for the exceptions the driver raises: its code raises a
  \<^verbatim>\<open>RuntimeError\<close> where the spec says NotConnectedError, a \<^verbatim>\<open>ValueError\<close> where the
  spec says RangeExceededError, and a failed \<^verbatim>\<open>assert\<close> where the spec says
  UnexpectedDeviceError.
\<close>

abbreviation NotConnectedError :: error where
  "NotConnectedError \<equiv> RuntimeError ''Device not connected.''"


abbreviation UnexpectedDeviceError :: error where
  "UnexpectedDeviceError \<equiv> AssertionError ''Error: Unexpected device found.''"

text \<open>
  The \<^verbatim>\<open>ValueError\<close> the interpreter raises when an int has too many digits to be
  converted to text.
\<close>

abbreviation IntStrDigitsError :: error where
  "IntStrDigitsError \<equiv>
     ValueError ''Exceeds the limit (4300 digits) for integer string conversion; use sys.set_int_max_str_digits() to increase the limit''"

text \<open>
  The instrument bus is outside the driver. It is modelled by what the driver can see of
  it: whether the resource is open, every call made on it so far (in order), and the answer
  it gives to a query, which may depend on all the calls before.
\<close>

datatype tcall = TOpen string | TWrite string | TQuery string | TClose

record transport =
  opened :: bool
  traffic :: "tcall list"
  reply :: "tcall list \<Rightarrow> string \<Rightarrow> string"

definition open_resource :: "string \<Rightarrow> transport \<Rightarrow> transport" where
  "open_resource addr t = t\<lparr>opened := True, traffic := traffic t @ [TOpen addr]\<rparr>"

definition t_write :: "string \<Rightarrow> transport \<Rightarrow> transport" where
  "t_write cmd t = t\<lparr>traffic := traffic t @ [TWrite cmd]\<rparr>"

definition t_query :: "string \<Rightarrow> transport \<Rightarrow> string \<times> transport" where
  "t_query q t = (reply t (traffic t) q, t\<lparr>traffic := traffic t @ [TQuery q]\<rparr>)"

definition t_close :: "transport \<Rightarrow> transport" where
  "t_close t = t\<lparr>opened := False, traffic := traffic t @ [TClose]\<rparr>"

text \<open>
  \<^verbatim>\<open>SMUChannel.__init__\<close>: the token and the two private ceilings. The field \<^verbatim>\<open>smu\<close>
  is the owning device; in the model that is the device of the state the method runs in.
\<close>

record SMUChannel =
  channel :: string
  voltage_range :: int
  current_range :: int

definition SMUChannel_init :: "string \<Rightarrow> SMUChannel" where
  "SMUChannel_init chan = \<lparr>channel = chan, voltage_range = 20, current_range = 2\<rparr>"

text \<open>
  \<^verbatim>\<open>KeysightB2900\<close>: \<^verbatim>\<open>dev\<close> is the resource handle (named by the address it was
  opened at) or \<^verbatim>\<open>None\<close>.
\<close>

record KeysightB2900 =
  dev :: "string option"
  dev_id :: string
  chan1 :: SMUChannel
  chan2 :: SMUChannel

record world =
  smu :: KeysightB2900
  bus :: transport

definition CHAN1 :: string where "CHAN1 = ''2''"
definition CHAN2 :: string where "CHAN2 = ''1''"
definition CURRENT_MODE :: string where "CURRENT_MODE = ''CURR''"
definition VOLTAGE_MODE :: string where "VOLTAGE_MODE = ''VOLT''"
definition STATE_ON :: string where "STATE_ON = ''ON''"
definition STATE_OFF :: string where "STATE_OFF = ''OFF''"

section \<open>Python built-ins the driver relies on\<close>

text \<open>
  \<^verbatim>\<open>str\<close> of an int, which is also what an f-string field \<^verbatim>\<open>{value}\<close> gives for an
  int. \<open>decimal\<close> is the decimal numeral. CPython converts an int only when its numeral has
  at most \<^verbatim>\<open>sys.int_info.default_max_str_digits\<close> digits, the sign not counted; that is
  4300 unless the program changes it, and the driver does not. Beyond that the conversion
  raises \<^verbatim>\<open>ValueError\<close>.
\<close>

definition digit_char :: "nat \<Rightarrow> char" where
  "digit_char d = ''0123456789'' ! d"

fun digits_nat :: "nat \<Rightarrow> string" where
  "digits_nat n =
     (if n < 10 then [digit_char n] else digits_nat (n div 10) @ [digit_char (n mod 10)])"

definition decimal :: "int \<Rightarrow> string" where
  "decimal i = (if i < 0 then CHR ''-'' # digits_nat (nat (- i)) else digits_nat (nat i))"

definition int_max_str_digits :: nat where
  "int_max_str_digits = 4300"

definition str_int :: "int \<Rightarrow> error + string" where
  "str_int i =
     (if int_max_str_digits < length (digits_nat (nat \<bar>i\<bar>)) then Inl IntStrDigitsError
      else Inr (decimal i))"

text \<open>\<^verbatim>\<open>sub in s\<close> on strings.\<close>

fun starts_with :: "string \<Rightarrow> string \<Rightarrow> bool" where
  "starts_with [] s = True"
| "starts_with (c # cs) [] = False"
| "starts_with (c # cs) (d # ds) = (c = d \<and> starts_with cs ds)"

fun str_in :: "string \<Rightarrow> string \<Rightarrow> bool" where
  "str_in sub [] = (sub = [])"
| "str_in sub (d # ds) = (starts_with sub (d # ds) \<or> str_in sub ds)"

section \<open>The device\<close>

text \<open>
  \<^verbatim>\<open>__init__\<close>: open, ask for the identity, assert on it, build the two channels. A failed
  assertion leaves the constructor at once; no object is returned.
\<close>

definition KeysightB2900_init :: "string \<Rightarrow> transport \<Rightarrow> (error + KeysightB2900) \<times> transport" where
  "KeysightB2900_init dev_addr t =
     (let t1 = open_resource dev_addr t;
          (ident, t2) = t_query ''*IDN?'' t1
      in if str_in ''B2902B'' ident
         then (Inr \<lparr>dev = Some dev_addr, dev_id = ident,
                    chan1 = SMUChannel_init ''1'', chan2 = SMUChannel_init ''2''\<rparr>, t2)
         else (Inl (AssertionError ''Error: Unexpected device found.''), t2))"

definition close :: "world \<Rightarrow> (error + unit) \<times> world" where
  "close w =
     (if dev (smu w) \<noteq> None
      then (Inr (), w\<lparr>bus := t_close (bus w), smu := (smu w)\<lparr>dev := None\<rparr>\<rparr>)
      else (Inr (), w))"

definition reset :: "world \<Rightarrow> (error + unit) \<times> world" where
  "reset w =
     (if dev (smu w) = None then (Inl (RuntimeError ''Device not connected.''), w)
      else (Inr (), w\<lparr>bus := t_write ''*RST'' (bus w)\<rparr>))"

definition set_display :: "world \<Rightarrow> (error + unit) \<times> world" where
  "set_display w = (Inr (), w)"

definition write_command :: "string \<Rightarrow> world \<Rightarrow> (error + unit) \<times> world" where
  "write_command command w =
     (if dev (smu w) = None then (Inl (RuntimeError ''Device not connected.''), w)
      else (Inr (), w\<lparr>bus := t_write command (bus w)\<rparr>))"

definition write_query :: "string \<Rightarrow> world \<Rightarrow> (error + string) \<times> world" where
  "write_query query w =
     (if dev (smu w) = None then (Inl (RuntimeError ''Device not connected.''), w)
      else (let (data, t) = t_query query (bus w) in (Inr data, w\<lparr>bus := t\<rparr>)))"

text \<open>
  The builders the channels call. The leading underscore of the source's names is dropped;
  \<^verbatim>\<open>_measure\<close> is \<open>measure_smu\<close>. The speed of \<^verbatim>\<open>_set_measurement_speed\<close> is an int here.
  Each builder first forms its command with an f-string and then calls
  \<^verbatim>\<open>write_command\<close>: where the f-string converts an int, the conversion can raise before
  \<^verbatim>\<open>write_command\<close> and its connection check are reached.
\<close>

definition set_measurement_speed :: "string \<Rightarrow> int \<Rightarrow> string \<Rightarrow> world \<Rightarrow> (error + unit) \<times> world" where
  "set_measurement_speed chan speed sense_mode w =
     (case str_int speed of
        Inl e \<Rightarrow> (Inl e, w)
      | Inr txt \<Rightarrow>
          write_command ('':SENS'' @ chan @ '':'' @ sense_mode @ '':NPLC '' @ txt) w)"

definition set_source_mode :: "string \<Rightarrow> string \<Rightarrow> world \<Rightarrow> (error + unit) \<times> world" where
  "set_source_mode chan source_mode w =
     write_command ('':SOUR'' @ chan @ '':FUNC:MODE '' @ source_mode) w"

definition set_sense_wire_mode :: "string \<Rightarrow> string \<Rightarrow> world \<Rightarrow> (error + unit) \<times> world" where
  "set_sense_wire_mode chan four_wire_on w =
     write_command ('':SENS'' @ chan @ '':REM '' @ four_wire_on) w"

definition set_limit :: "string \<Rightarrow> string \<Rightarrow> int \<Rightarrow> world \<Rightarrow> (error + unit) \<times> world" where
  "set_limit chan sense_mode v w =
     (case str_int v of
        Inl e \<Rightarrow> (Inl e, w)
      | Inr txt \<Rightarrow>
          write_command ('':SENS'' @ chan @ '':'' @ sense_mode @ '':PROT '' @ txt) w)"

definition set_level :: "string \<Rightarrow> string \<Rightarrow> int \<Rightarrow> world \<Rightarrow> (error + unit) \<times> world" where
  "set_level chan source_mode v w =
     (case str_int v of
        Inl e \<Rightarrow> (Inl e, w)
      | Inr txt \<Rightarrow>
          write_command ('':SOUR'' @ chan @ '':'' @ source_mode @ '' '' @ txt) w)"

definition set_output_state :: "string \<Rightarrow> string \<Rightarrow> world \<Rightarrow> (error + unit) \<times> world" where
  "set_output_state chan on_off w =
     write_command ('':OUTP'' @ chan @ '' '' @ on_off) w"

text \<open>
  \<^verbatim>\<open>_measure\<close> calls \<^verbatim>\<open>self.dev.query\<close> itself, not \<^verbatim>\<open>write_query\<close>: with
  \<^verbatim>\<open>dev\<close> being \<^verbatim>\<open>None\<close> the attribute lookup raises \<^verbatim>\<open>AttributeError\<close>.
\<close>

definition measure_smu :: "string \<Rightarrow> string \<Rightarrow> world \<Rightarrow> (error + string) \<times> world" where
  "measure_smu chan mode w =
     (let query = ''MEAS:'' @ mode @ ''? (@'' @ chan @ '')''
      in case dev (smu w) of
           None \<Rightarrow> (Inl AttributeError, w)
         | Some h \<Rightarrow> (let (data, t) = t_query query (bus w) in (Inr data, w\<lparr>bus := t\<rparr>)))"

definition time_domain_sweep :: "string \<Rightarrow> string \<Rightarrow> int \<Rightarrow> int \<Rightarrow> int \<Rightarrow> world \<Rightarrow> (error + unit) \<times> world" where
  "time_domain_sweep chan source_mode source_value num_points time w = (Inr (), w)"

section \<open>The channel\<close>

definition set_mode_voltage_source :: "SMUChannel \<Rightarrow> world \<Rightarrow> (error + unit) \<times> world" where
  "set_mode_voltage_source self w = set_source_mode (channel self) VOLTAGE_MODE w"

definition set_mode_current_source :: "SMUChannel \<Rightarrow> world \<Rightarrow> (error + unit) \<times> world" where
  "set_mode_current_source self w = set_source_mode (channel self) CURRENT_MODE w"

definition set_voltage_limit :: "SMUChannel \<Rightarrow> int \<Rightarrow> world \<Rightarrow> (error + unit) \<times> world" where
  "set_voltage_limit self v w =
     (if v \<le> voltage_range self then set_limit (channel self) CURRENT_MODE v w
      else (Inl (ValueError ''The limit is not within the range. Please set the range first''), w))"

definition set_current_limit :: "SMUChannel \<Rightarrow> int \<Rightarrow> world \<Rightarrow> (error + unit) \<times> world" where
  "set_current_limit self v w =
     (if v \<le> current_range self then set_limit (channel self) VOLTAGE_MODE v w
      else (Inl (ValueError ''The limit is not within the range. Please set the range first''), w))"

definition set_voltage :: "SMUChannel \<Rightarrow> int \<Rightarrow> world \<Rightarrow> (error + unit) \<times> world" where
  "set_voltage self v w = set_level (channel self) VOLTAGE_MODE v w"

definition set_current :: "SMUChannel \<Rightarrow> int \<Rightarrow> world \<Rightarrow> (error + unit) \<times> world" where
  "set_current self v w = set_level (channel self) CURRENT_MODE v w"

definition enable_output :: "SMUChannel \<Rightarrow> world \<Rightarrow> (error + unit) \<times> world" where
  "enable_output self w = set_output_state (channel self) STATE_ON w"

definition disable_output :: "SMUChannel \<Rightarrow> world \<Rightarrow> (error + unit) \<times> world" where
  "disable_output self w = set_output_state (channel self) STATE_OFF w"

definition measure_voltage :: "SMUChannel \<Rightarrow> world \<Rightarrow> (error + string) \<times> world" where
  "measure_voltage self w = measure_smu (channel self) VOLTAGE_MODE w"

definition measure_current :: "SMUChannel \<Rightarrow> world \<Rightarrow> (error + string) \<times> world" where
  "measure_current self w = measure_smu (channel self) CURRENT_MODE w"

section \<open>Calls a client can make\<close>

text \<open>
  Every method of the two classes as a value, so that statements about "every operation"
  and about sequences of calls can be made. A channel method is called on one of the two
  channel objects of the device.
\<close>

datatype chan_sel = Chan1 | Chan2

fun the_chan :: "chan_sel \<Rightarrow> KeysightB2900 \<Rightarrow> SMUChannel" where
  "the_chan Chan1 d = chan1 d"
| "the_chan Chan2 d = chan2 d"

datatype chan_call =
    Set_mode_voltage_source
  | Set_mode_current_source
  | Set_voltage_limit int
  | Set_current_limit int
  | Set_voltage int
  | Set_current int
  | Enable_output
  | Disable_output
  | Measure_voltage
  | Measure_current

datatype call =
    Close
  | Reset
  | Set_display
  | Write_command string
  | Write_query string
  | Set_measurement_speed string int string
  | Set_source_mode string string
  | Set_sense_wire_mode string string
  | Set_limit string string int
  | Set_level string string int
  | Set_output_state string string
  | Measure string string
  | Time_domain_sweep string string int int int
  | On_channel chan_sel chan_call

datatype ret = RNone | RStr string

definition returns_none :: "(error + unit) \<times> world \<Rightarrow> (error + ret) \<times> world" where
  "returns_none r = (case r of (Inl e, w) \<Rightarrow> (Inl e, w) | (Inr u, w) \<Rightarrow> (Inr RNone, w))"

definition returns_str :: "(error + string) \<times> world \<Rightarrow> (error + ret) \<times> world" where
  "returns_str r = (case r of (Inl e, w) \<Rightarrow> (Inl e, w) | (Inr s, w) \<Rightarrow> (Inr (RStr s), w))"

fun exec_chan :: "chan_call \<Rightarrow> SMUChannel \<Rightarrow> world \<Rightarrow> (error + ret) \<times> world" where
  "exec_chan Set_mode_voltage_source self w = returns_none (set_mode_voltage_source self w)"
| "exec_chan Set_mode_current_source self w = returns_none (set_mode_current_source self w)"
| "exec_chan (Set_voltage_limit v) self w = returns_none (set_voltage_limit self v w)"
| "exec_chan (Set_current_limit v) self w = returns_none (set_current_limit self v w)"
| "exec_chan (Set_voltage v) self w = returns_none (set_voltage self v w)"
| "exec_chan (Set_current v) self w = returns_none (set_current self v w)"
| "exec_chan Enable_output self w = returns_none (enable_output self w)"
| "exec_chan Disable_output self w = returns_none (disable_output self w)"
| "exec_chan Measure_voltage self w = returns_str (measure_voltage self w)"
| "exec_chan Measure_current self w = returns_str (measure_current self w)"

fun exec :: "call \<Rightarrow> world \<Rightarrow> (error + ret) \<times> world" where
  "exec Close w = returns_none (close w)"
| "exec Reset w = returns_none (reset w)"
| "exec Set_display w = returns_none (set_display w)"
| "exec (Write_command c) w = returns_none (write_command c w)"
| "exec (Write_query q) w = returns_str (write_query q w)"
| "exec (Set_measurement_speed ch sp m) w = returns_none (set_measurement_speed ch sp m w)"
| "exec (Set_source_mode ch m) w = returns_none (set_source_mode ch m w)"
| "exec (Set_sense_wire_mode ch fw) w = returns_none (set_sense_wire_mode ch fw w)"
| "exec (Set_limit ch m v) w = returns_none (set_limit ch m v w)"
| "exec (Set_level ch m v) w = returns_none (set_level ch m v w)"
| "exec (Set_output_state ch s) w = returns_none (set_output_state ch s w)"
| "exec (Measure ch m) w = returns_str (measure_smu ch m w)"
| "exec (Time_domain_sweep ch m v n t) w = returns_none (time_domain_sweep ch m v n t w)"
| "exec (On_channel c f) w = exec_chan f (the_chan c (smu w)) w"

text \<open>
  A script: the calls one after another, stopping at the first exception, as a sequence of
  Python statements does.
\<close>

fun run :: "call list \<Rightarrow> world \<Rightarrow> (error + ret list) \<times> world" where
  "run [] w = (Inr [], w)"
| "run (c # cs) w =
     (case exec c w of
        (Inl e, w1) \<Rightarrow> (Inl e, w1)
      | (Inr r, w1) \<Rightarrow>
          (case run cs w1 of
             (Inl e, w2) \<Rightarrow> (Inl e, w2)
           | (Inr rs, w2) \<Rightarrow> (Inr (r # rs), w2)))"

text \<open>
  The state after any calls whatever their outcome: a client that catches every exception
  and carries on.
\<close>

fun after :: "call list \<Rightarrow> world \<Rightarrow> world" where
  "after [] w = w"
| "after (c # cs) w = after cs (snd (exec c w))"

section \<open>Two concrete instruments and a long number\<close>

fun b2902b_reply :: "tcall list \<Rightarrow> string \<Rightarrow> string" where
  "b2902b_reply history q =
     (if q = ''*IDN?'' then ''Keysight Technologies,B2902B,MY00000000,0.0.0''
      else ''+1.000000E-03'')"

fun b2901a_reply :: "tcall list \<Rightarrow> string \<Rightarrow> string" where
  "b2901a_reply history q =
     (if q = ''*IDN?'' then ''Keysight Technologies,B2901A,MY00000000,0.0.0''
      else ''+1.000000E-03'')"

definition b2902b_bus :: transport where
  "b2902b_bus = \<lparr>opened = False, traffic = [], reply = b2902b_reply\<rparr>"

definition b2901a_bus :: transport where
  "b2901a_bus = \<lparr>opened = False, traffic = [], reply = b2901a_reply\<rparr>"

definition usb_addr :: string where
  "usb_addr = ''USB0::2391::12345::XY00001234::0::INSTR''"

text \<open>The state a successful construction on \<open>b2902b_bus\<close> leaves (lemma \<open>init_b2902b\<close>).\<close>

definition lab_world :: world where
  "lab_world =
     \<lparr>smu = \<lparr>dev = Some usb_addr,
              dev_id = ''Keysight Technologies,B2902B,MY00000000,0.0.0'',
              chan1 = SMUChannel_init ''1'', chan2 = SMUChannel_init ''2''\<rparr>,
      bus = \<lparr>opened = True, traffic = [TOpen usb_addr, TQuery ''*IDN?''],
              reply = b2902b_reply\<rparr>\<rparr>"


section \<open>Basic facts\<close>

declare digits_nat.simps [simp del]

text \<open>
  \<open>str_in\<close> is the substring test: \<^verbatim>\<open>sub in s\<close> holds exactly when \<open>s\<close> splits around
  \<open>sub\<close>.
\<close>

lemma starts_with_iff: "starts_with sub s \<longleftrightarrow> (\<exists>ss. s = sub @ ss)"
  by (induction sub s rule: starts_with.induct) auto

lemma str_in_iff: "str_in sub s \<longleftrightarrow> (\<exists>ps ss. s = ps @ sub @ ss)"
proof (induction s)
  case Nil
  then show ?case by auto
next
  case (Cons d ds)
  show ?case
  proof
    assume "str_in sub (d # ds)"
    then consider "starts_with sub (d # ds)" | "str_in sub ds" by auto
    then show "\<exists>ps ss. d # ds = ps @ sub @ ss"
    proof cases
      case 1
      then obtain ss where "d # ds = sub @ ss" by (auto simp: starts_with_iff)
      then have "d # ds = [] @ sub @ ss" by simp
      then show ?thesis by blast
    next
      case 2
      then obtain ps ss where "ds = ps @ sub @ ss" using Cons.IH by auto
      then have "d # ds = (d # ps) @ sub @ ss" by simp
      then show ?thesis by blast
    qed
  next
    assume "\<exists>ps ss. d # ds = ps @ sub @ ss"
    then obtain ps ss where eq: "d # ds = ps @ sub @ ss" by blast
    show "str_in sub (d # ds)"
    proof (cases ps)
      case Nil
      then have "starts_with sub (d # ds)" using eq by (auto simp: starts_with_iff)
      then show ?thesis by simp
    next
      case (Cons p ps')
      then have "ds = ps' @ sub @ ss" using eq by simp
      then have "str_in sub ds" using Cons.IH by blast
      then show ?thesis by simp
    qed
  qed
qed

text \<open>
  For \<open>k\<close> at least 1, the numeral of \<open>n\<close> has more than \<open>k\<close> digits exactly when \<open>n\<close> is
  at least \<open>10 ^ k\<close>; so the conversion of an int succeeds exactly below \<open>10 ^ 4300\<close> in
  absolute value.
\<close>

lemma length_digits_nat:
  "length (digits_nat n) = (if n < 10 then 1 else Suc (length (digits_nat (n div 10))))"
  by (subst digits_nat.simps) simp

lemma digits_nat_long: "10 ^ k \<le> n \<Longrightarrow> k < length (digits_nat n)"
proof (induction k arbitrary: n)
  case 0
  then show ?case by (subst length_digits_nat) simp
next
  case (Suc k)
  then have big: "10 \<le> n"
    by (metis le_trans one_le_numeral one_le_power power_Suc mult.right_neutral mult_le_mono2)
  from Suc.prems have "10 ^ k \<le> n div 10"
    by (simp add: less_eq_div_iff_mult_less_eq mult.commute)
  then have "k < length (digits_nat (n div 10))" by (rule Suc.IH)
  then show ?case using big by (subst length_digits_nat) simp
qed

lemma digits_nat_short: "n < 10 ^ Suc k \<Longrightarrow> length (digits_nat n) \<le> Suc k"
proof (induction k arbitrary: n)
  case 0
  then show ?case by (subst length_digits_nat) simp
next
  case (Suc k)
  show ?case
  proof (cases "n < 10")
    case True
    then show ?thesis by (subst length_digits_nat) simp
  next
    case False
    from Suc.prems have "n div 10 < 10 ^ Suc k"
      by (simp add: div_less_iff_less_mult mult.commute)
    then have "length (digits_nat (n div 10)) \<le> Suc k" by (rule Suc.IH)
    then show ?thesis using False by (subst length_digits_nat) simp
  qed
qed

lemma digits_nat_length_iff:
  assumes "0 < k"
  shows "k < length (digits_nat n) \<longleftrightarrow> 10 ^ k \<le> n"
proof
  from assms obtain j where k: "k = Suc j" by (cases k) auto
  assume "k < length (digits_nat n)"
  then show "10 ^ k \<le> n"
    using digits_nat_short [of n j] k by (cases "n < 10 ^ k") auto
next
  assume "10 ^ k \<le> n"
  then show "k < length (digits_nat n)" by (rule digits_nat_long)
qed

lemma str_int_eq:
  "str_int v =
     (if 10 ^ int_max_str_digits \<le> \<bar>v\<bar> then Inl IntStrDigitsError else Inr (decimal v))"
proof -
  have "0 < int_max_str_digits"
    by (simp add: int_max_str_digits_def)
  then have "int_max_str_digits < length (digits_nat (nat \<bar>v\<bar>))
      \<longleftrightarrow> 10 ^ int_max_str_digits \<le> nat \<bar>v\<bar>"
    by (rule digits_nat_length_iff)
  moreover have "(10 ^ int_max_str_digits \<le> nat \<bar>v\<bar>) = ((10::int) ^ int_max_str_digits \<le> \<bar>v\<bar>)"
    by (simp add: le_nat_iff)
  ultimately show ?thesis
    by (simp add: str_int_def)
qed

lemma under_limit: "\<bar>v\<bar> < 10 ^ 7 \<Longrightarrow> \<not> (10::int) ^ int_max_str_digits \<le> \<bar>v\<bar>"
proof -
  assume small: "\<bar>v\<bar> < 10 ^ 7"
  have "(10::int) ^ 7 \<le> 10 ^ int_max_str_digits"
    by (rule power_increasing) (simp_all add: int_max_str_digits_def)
  then show ?thesis using small by linarith
qed



lemma str_int_5: "str_int 5 = Inr ''5''"
  using under_limit [of 5]
  by (simp add: str_int_eq decimal_def digits_nat.simps digit_char_def)

lemma write_command_open:
  "dev (smu w) \<noteq> None \<Longrightarrow>
     write_command c w = (Inr (), w\<lparr>bus := (bus w)\<lparr>traffic := traffic (bus w) @ [TWrite c]\<rparr>\<rparr>)"
  by (simp add: write_command_def t_write_def)

lemma write_command_closed:
  "dev (smu w) = None \<Longrightarrow> write_command c w = (Inl (RuntimeError ''Device not connected.''), w)"
  by (simp add: write_command_def)


lemma set_source_mode_open:
  "dev (smu w) \<noteq> None \<Longrightarrow>
     set_source_mode chan m w =
       (Inr (), w\<lparr>bus := (bus w)\<lparr>traffic := traffic (bus w) @
          [TWrite ('':SOUR'' @ chan @ '':FUNC:MODE '' @ m)]\<rparr>\<rparr>)"
  by (simp add: set_source_mode_def write_command_open)

lemma set_limit_eq:
  "set_limit chan m v w =
     (if 10 ^ int_max_str_digits \<le> \<bar>v\<bar> then (Inl IntStrDigitsError, w)
      else if dev (smu w) = None then (Inl NotConnectedError, w)
      else (Inr (), w\<lparr>bus := (bus w)\<lparr>traffic := traffic (bus w) @
              [TWrite ('':SENS'' @ chan @ '':'' @ m @ '':PROT '' @ decimal v)]\<rparr>\<rparr>))"
  by (simp add: set_limit_def str_int_eq write_command_open write_command_closed)

lemma set_level_eq:
  "set_level chan m v w =
     (if 10 ^ int_max_str_digits \<le> \<bar>v\<bar> then (Inl IntStrDigitsError, w)
      else if dev (smu w) = None then (Inl NotConnectedError, w)
      else (Inr (), w\<lparr>bus := (bus w)\<lparr>traffic := traffic (bus w) @
              [TWrite ('':SOUR'' @ chan @ '':'' @ m @ '' '' @ decimal v)]\<rparr>\<rparr>))"
  by (simp add: set_level_def str_int_eq write_command_open write_command_closed)

lemma set_level_5:
  "dev (smu w) \<noteq> None \<Longrightarrow>
     set_level chan m 5 w =
       (Inr (), w\<lparr>bus := (bus w)\<lparr>traffic := traffic (bus w) @
          [TWrite ('':SOUR'' @ chan @ '':'' @ m @ '' 5'')]\<rparr>\<rparr>)"
  by (simp add: set_level_def str_int_5 write_command_open)

lemma set_measurement_speed_eq:
  "set_measurement_speed chan sp m w =
     (if 10 ^ int_max_str_digits \<le> \<bar>sp\<bar> then (Inl IntStrDigitsError, w)
      else if dev (smu w) = None then (Inl NotConnectedError, w)
      else (Inr (), w\<lparr>bus := (bus w)\<lparr>traffic := traffic (bus w) @
              [TWrite ('':SENS'' @ chan @ '':'' @ m @ '':NPLC '' @ decimal sp)]\<rparr>\<rparr>))"
  by (simp add: set_measurement_speed_def str_int_eq write_command_open write_command_closed)

lemma set_output_state_open:
  "dev (smu w) \<noteq> None \<Longrightarrow>
     set_output_state chan s w =
       (Inr (), w\<lparr>bus := (bus w)\<lparr>traffic := traffic (bus w) @
          [TWrite ('':OUTP'' @ chan @ '' '' @ s)]\<rparr>\<rparr>)"
  by (simp add: set_output_state_def write_command_open)

lemma measure_smu_open:
  "dev (smu w) \<noteq> None \<Longrightarrow>
     measure_smu chan m w =
       (Inr (reply (bus w) (traffic (bus w)) (''MEAS:'' @ m @ ''? (@'' @ chan @ '')'')),
        w\<lparr>bus := (bus w)\<lparr>traffic := traffic (bus w) @
          [TQuery (''MEAS:'' @ m @ ''? (@'' @ chan @ '')'')]\<rparr>\<rparr>)"
  by (auto simp: measure_smu_def t_query_def)

lemma measure_smu_closed:
  "dev (smu w) = None \<Longrightarrow> measure_smu chan m w = (Inl AttributeError, w)"
  by (simp add: measure_smu_def)

section \<open>A disconnected device stays as it is\<close>





section \<open>What a call leaves of the device object\<close>

lemma snd_returns_none: "snd (returns_none r) = snd r"
  by (simp add: returns_none_def split: prod.splits sum.splits)

lemma snd_returns_str: "snd (returns_str r) = snd r"
  by (simp add: returns_str_def split: prod.splits sum.splits)

lemma write_command_smu: "smu (snd (write_command c w)) = smu w"
  by (simp add: write_command_def)

lemma measure_smu_smu: "smu (snd (measure_smu chan m w)) = smu w"
  by (simp add: measure_smu_def t_query_def split: option.splits)

lemma set_limit_smu: "smu (snd (set_limit chan m v w)) = smu w"
  by (simp add: set_limit_eq)

lemma set_level_smu: "smu (snd (set_level chan m v w)) = smu w"
  by (simp add: set_level_eq)

lemma set_measurement_speed_smu: "smu (snd (set_measurement_speed chan sp m w)) = smu w"
  by (simp add: set_measurement_speed_eq)

lemma exec_chan_smu: "smu (snd (exec_chan f self w)) = smu w"
  by (cases f)
     (simp_all add: snd_returns_none snd_returns_str set_mode_voltage_source_def
        set_mode_current_source_def set_voltage_limit_def set_current_limit_def
        set_voltage_def set_current_def enable_output_def disable_output_def
        measure_voltage_def measure_current_def set_source_mode_def set_limit_smu
        set_level_smu set_output_state_def write_command_smu measure_smu_smu)

lemma exec_chans:
  "chan1 (smu (snd (exec c w))) = chan1 (smu w) \<and> chan2 (smu (snd (exec c w))) = chan2 (smu w)"
  by (cases c)
     (simp_all add: exec_chan_smu snd_returns_none snd_returns_str close_def reset_def
        set_display_def write_command_smu write_query_def t_query_def
        set_measurement_speed_smu set_source_mode_def set_sense_wire_mode_def set_limit_smu
        set_level_smu set_output_state_def measure_smu_smu time_domain_sweep_def)

lemma after_chans:
  "chan1 (smu (after cs w)) = chan1 (smu w) \<and> chan2 (smu (after cs w)) = chan2 (smu w)"
  by (induction cs arbitrary: w) (simp_all add: exec_chans)

section \<open>Construction\<close>

lemma init_b2902b:
  "KeysightB2900_init usb_addr b2902b_bus = (Inr (smu lab_world), bus lab_world)"
  by (simp add: KeysightB2900_init_def open_resource_def t_query_def b2902b_bus_def lab_world_def)

lemma init_ok:
  "KeysightB2900_init addr t = (Inr d, t') \<Longrightarrow>
     chan1 d = SMUChannel_init ''1'' \<and> chan2 d = SMUChannel_init ''2'' \<and> dev d = Some addr"
  by (auto simp: KeysightB2900_init_def Let_def split: prod.splits if_splits)

text \<open>
  Claim C7. A successful construction yields a device with its two channel objects, the
  first with token \<^verbatim>\<open>"1"\<close> and the second with token \<^verbatim>\<open>"2"\<close>, while the class constants
  are \<^verbatim>\<open>CHAN1 = "2"\<close> and \<^verbatim>\<open>CHAN2 = "1"\<close>.
\<close>

theorem init_channels:
  "KeysightB2900_init addr t = (Inr d, t') \<Longrightarrow>
     chan1 d = SMUChannel_init ''1'' \<and> chan2 d = SMUChannel_init ''2''
   \<and> channel (chan1 d) = ''1'' \<and> channel (chan2 d) = ''2''
   \<and> CHAN1 = ''2'' \<and> CHAN2 = ''1''"
  by (auto simp: SMUChannel_init_def CHAN1_def CHAN2_def dest: init_ok)

theorem init_channels_witness:
  "KeysightB2900_init usb_addr b2902b_bus = (Inr (smu lab_world), bus lab_world)
   \<and> channel (chan1 (smu lab_world)) = ''1'' \<and> channel (chan2 (smu lab_world)) = ''2''
   \<and> CHAN1 = ''2'' \<and> CHAN2 = ''1''"
  using init_channels [OF init_b2902b] init_b2902b by (simp add: SMUChannel_init_def)

text \<open>
  Claim C4, as amended. When the identity response does not contain \<^verbatim>\<open>B2902B\<close>, the
  constructor raises the assertion error (the spec's UnexpectedDeviceError) and returns no
  device. By then it has opened the resource and sent the identity query, and it does not
  close the resource: the handle stays open.
\<close>

theorem init_unexpected_device:
  "\<not> str_in ''B2902B'' (reply t (traffic t @ [TOpen addr]) ''*IDN?'') \<Longrightarrow>
     KeysightB2900_init addr t =
       (Inl UnexpectedDeviceError,
        t\<lparr>opened := True, traffic := traffic t @ [TOpen addr, TQuery ''*IDN?'']\<rparr>)"
  by (simp add: KeysightB2900_init_def open_resource_def t_query_def)

theorem init_unexpected_device_witness:
  "\<not> str_in ''B2902B'' (reply b2901a_bus (traffic b2901a_bus @ [TOpen usb_addr]) ''*IDN?'')
   \<and> KeysightB2900_init usb_addr b2901a_bus =
       (Inl UnexpectedDeviceError,
        b2901a_bus\<lparr>opened := True,
          traffic := traffic b2901a_bus @ [TOpen usb_addr, TQuery ''*IDN?'']\<rparr>)"
  using init_unexpected_device [where t = b2901a_bus and addr = usb_addr]
  by (simp add: b2901a_bus_def)

text \<open>
  Claim C4 as stated says that no open handle remains. On an instrument answering with
  model B2901A the constructor fails and the resource it opened is still open; no close
  call was made on it.
\<close>

theorem init_leaves_handle_open_counterexample:
  "fst (KeysightB2900_init usb_addr b2901a_bus) = Inl UnexpectedDeviceError
   \<and> opened (snd (KeysightB2900_init usb_addr b2901a_bus))
   \<and> TClose \<notin> set (traffic (snd (KeysightB2900_init usb_addr b2901a_bus)))"
  by (simp add: KeysightB2900_init_def open_resource_def t_query_def b2901a_bus_def)

text \<open>
  Claim C9. The ceilings are set in \<^verbatim>\<open>SMUChannel.__init__\<close> (voltage 20, current 2) and no
  method of either class assigns them again: whatever calls are made on a device, in any
  order and whatever their outcome, both channel objects are what they were before; on a
  freshly constructed device the ceilings are therefore 20 and 2 for good.
\<close>

theorem ceilings_never_change:
  "chan1 (smu (after cs w)) = chan1 (smu w) \<and> chan2 (smu (after cs w)) = chan2 (smu w)
   \<and> (KeysightB2900_init addr t = (Inr d, t') \<longrightarrow>
        voltage_range (chan1 (smu (after cs \<lparr>smu = d, bus = t'\<rparr>))) = 20
      \<and> current_range (chan1 (smu (after cs \<lparr>smu = d, bus = t'\<rparr>))) = 2
      \<and> voltage_range (chan2 (smu (after cs \<lparr>smu = d, bus = t'\<rparr>))) = 20
      \<and> current_range (chan2 (smu (after cs \<lparr>smu = d, bus = t'\<rparr>))) = 2)"
  by (auto simp: after_chans SMUChannel_init_def dest: init_ok)

theorem ceilings_never_change_witness:
  "KeysightB2900_init usb_addr b2902b_bus = (Inr (smu lab_world), bus lab_world)
   \<and> voltage_range (chan1 (smu (after [On_channel Chan1 (Set_voltage_limit 7), Close, Reset]
        \<lparr>smu = smu lab_world, bus = bus lab_world\<rparr>))) = 20
   \<and> current_range (chan2 (smu (after [On_channel Chan1 (Set_voltage_limit 7), Close, Reset]
        \<lparr>smu = smu lab_world, bus = bus lab_world\<rparr>))) = 2"
  using ceilings_never_change [where addr = usb_addr and t = b2902b_bus and d = "smu lab_world"
          and t' = "bus lab_world" and cs = "[On_channel Chan1 (Set_voltage_limit 7), Close, Reset]"]
        init_b2902b
  by simp

section \<open>Limit setters\<close>










section \<open>Levels, measurements and the end-to-end scenario\<close>




text \<open>
  Claim C5. On a connected device \<^verbatim>\<open>measure_voltage()\<close> makes exactly one call on the
  bus, the query \<^verbatim>\<open>MEAS:VOLT? (@N)\<close> with \<open>N\<close> the channel's own token, and returns the
  bus's answer to that query as it is.
\<close>

theorem measure_voltage_one_query:
  "dev (smu w) \<noteq> None \<Longrightarrow>
     measure_voltage self w =
       (Inr (reply (bus w) (traffic (bus w)) (''MEAS:VOLT? (@'' @ channel self @ '')'')),
        w\<lparr>bus := (bus w)\<lparr>traffic := traffic (bus w) @
          [TQuery (''MEAS:VOLT? (@'' @ channel self @ '')'')]\<rparr>\<rparr>)"
  by (simp add: measure_voltage_def measure_smu_open VOLTAGE_MODE_def)

theorem measure_voltage_one_query_witness:
  "dev (smu lab_world) \<noteq> None
   \<and> measure_voltage (chan1 (smu lab_world)) lab_world =
       (Inr ''+1.000000E-03'',
        lab_world\<lparr>bus := (bus lab_world)\<lparr>traffic := traffic (bus lab_world) @
          [TQuery ''MEAS:VOLT? (@1)'']\<rparr>\<rparr>)"
  using measure_voltage_one_query [where self = "chan1 (smu lab_world)" and w = lab_world]
  by (simp add: lab_world_def SMUChannel_init_def)

text \<open>
  Claim C6. On a connected device, the four statements
  \<^verbatim>\<open>set_mode_voltage_source(); set_voltage(5); enable_output(); measure_current()\<close> on one
  of its channels all return, and together they append to the bus traffic exactly
  \<^verbatim>\<open>:SOUR{chan}:FUNC:MODE VOLT\<close>, \<^verbatim>\<open>:SOUR{chan}:VOLT 5\<close>, \<^verbatim>\<open>:OUTP{chan} ON\<close> (writes)
  and \<^verbatim>\<open>MEAS:CURR? (@N)\<close> (a query, \<open>N\<close> being the token \<^verbatim>\<open>{chan}\<close>), in this order, and
  nothing else.
\<close>

theorem voltage_source_scenario:
  "dev (smu w) \<noteq> None \<Longrightarrow> self = the_chan c (smu w) \<Longrightarrow>
     run [On_channel c Set_mode_voltage_source, On_channel c (Set_voltage 5),
          On_channel c Enable_output, On_channel c Measure_current] w =
       (Inr [RNone, RNone, RNone,
             RStr (reply (bus w)
                    (traffic (bus w) @
                      [TWrite ('':SOUR'' @ channel self @ '':FUNC:MODE VOLT''),
                       TWrite ('':SOUR'' @ channel self @ '':VOLT 5''),
                       TWrite ('':OUTP'' @ channel self @ '' ON'')])
                    (''MEAS:CURR? (@'' @ channel self @ '')''))],
        w\<lparr>bus := (bus w)\<lparr>traffic := traffic (bus w) @
          [TWrite ('':SOUR'' @ channel self @ '':FUNC:MODE VOLT''),
           TWrite ('':SOUR'' @ channel self @ '':VOLT 5''),
           TWrite ('':OUTP'' @ channel self @ '' ON''),
           TQuery (''MEAS:CURR? (@'' @ channel self @ '')'')]\<rparr>\<rparr>)"
  by (simp add: returns_none_def returns_str_def set_mode_voltage_source_def set_voltage_def
        enable_output_def measure_current_def set_source_mode_open set_level_5
        set_output_state_open measure_smu_open VOLTAGE_MODE_def CURRENT_MODE_def STATE_ON_def)

theorem voltage_source_scenario_witness:
  "dev (smu lab_world) \<noteq> None
   \<and> run [On_channel Chan2 Set_mode_voltage_source, On_channel Chan2 (Set_voltage 5),
          On_channel Chan2 Enable_output, On_channel Chan2 Measure_current] lab_world =
       (Inr [RNone, RNone, RNone, RStr ''+1.000000E-03''],
        lab_world\<lparr>bus := (bus lab_world)\<lparr>traffic := traffic (bus lab_world) @
          [TWrite '':SOUR2:FUNC:MODE VOLT'', TWrite '':SOUR2:VOLT 5'',
           TWrite '':OUTP2 ON'', TQuery ''MEAS:CURR? (@2)'']\<rparr>\<rparr>)"
  using voltage_source_scenario [where w = lab_world and c = Chan2
          and self = "chan2 (smu lab_world)"]
  by (simp add: lab_world_def SMUChannel_init_def)

section \<open>After close\<close>




text \<open>
  The measurements on a disconnected device, in general: \<^verbatim>\<open>write_query\<close> has the guard
  that \<^verbatim>\<open>_measure\<close> goes around.
\<close>

lemma measure_after_close:
  "dev (smu w) = None \<Longrightarrow>
     measure_voltage self w = (Inl AttributeError, w)
   \<and> measure_current self w = (Inl AttributeError, w)"
  by (simp add: measure_voltage_def measure_current_def measure_smu_closed)

end
